theory Spec2Isabelle
  imports Complex_Main "HOL-Library.Sublist"
begin

section \<open>The RAG route handlers of \<open>src/app/api/rag/route.ts\<close>\<close>

text \<open>
  The two route handlers (\<open>GET\<close>: index build, \<open>POST\<close>: retrieval and grounding) call four
  external services: the relational store, the embedding model, the vector index and the
  generation model. Each service is a field of the record \<open>env\<close>: what the service answers
  is a parameter of the model, what the handlers do with the answers is the code. A
  JavaScript exception is a value of type \<open>thrown\<close> on the left of a sum. Every handler
  returns, beside its HTTP response, the list of the external calls it has made.

  A JavaScript string is the list of its code units; the model covers code units below 256.
\<close>

subsection \<open>Values\<close>

text \<open>A thrown value: an instance of \<open>Error\<close> with its message, or anything else.\<close>

datatype thrown = JsError string | NonError

text \<open>
  A JavaScript number: a finite value (every finite double is a rational), \<open>NaN\<close> or an
  infinity.
\<close>

datatype jsnum = Finite rat | NaN | PosInfinity | NegInfinity

text \<open>
  What \<open>hf.featureExtraction\<close> resolves to. The client library types it as an array of
  numbers, of arrays of numbers, or deeper; \<open>getEmbedding\<close> also tests for a response
  that is no array at all, which here is a top-level \<open>Num\<close>.
\<close>

datatype jsval = Num jsnum | Arr "jsval list"

text \<open>A JSON value as the store returns it in the \<open>languages\<close> column. An object is the
  list of its properties (of distinct names) in enumeration order; a number is a
  JavaScript number.\<close>

datatype json = JNull | JBool bool | JNum jsnum | JStr string | JArr "json list"
  | JObj "(string \<times> json) list"

text \<open>A row of the \<open>project\<close> table: the four columns the handler reads; \<open>None\<close> is SQL
  \<open>NULL\<close>.\<close>

record project =
  projectName :: "string option"
  aiDescription :: "string option"
  languages :: json
  projectOwner :: "string option"

text \<open>\<open>PineconeMetadata\<close> and \<open>PineconeVector\<close>.\<close>

record PineconeMetadata =
  md_projectName :: string
  md_description :: string
  md_languages :: string
  md_owner :: string

record PineconeVector =
  id_v :: string
  values_v :: "jsval list"
  metadata_v :: PineconeMetadata

text \<open>The argument of \<open>index.query\<close>, and a scored record of its answer: the SDK types
  both \<open>score\<close> and \<open>metadata\<close> as optional.\<close>

record QueryOptions =
  vector :: "jsval list"
  topK :: nat
  includeMetadata :: bool

record ScoredRecord =
  id_m :: string
  score_m :: "jsnum option"
  metadata_m :: "PineconeMetadata option"

record QueryResponse =
  matches :: "ScoredRecord list option"

text \<open>\<open>CoreMessage\<close>: a role and a content that is a plain string or a list of parts.\<close>

datatype role = System | User | Assistant | Tool

datatype content = Text string | Parts "string list"

record CoreMessage =
  role :: role
  content :: content

text \<open>The state of the external vector index is the list of the records it stores.\<close>

type_synonym index_state = "PineconeVector list"

text \<open>The external calls a handler makes, in the order it makes them.\<close>

datatype call =
    DbSelect
  | FeatureExtraction string
  | Upsert "PineconeVector list"
  | Query QueryOptions
  | StreamText string "CoreMessage list"

text \<open>
  The environment of one handler run.
  \<^item> \<open>PINECONE_API_KEY\<close>: the environment variable, \<open>None\<close> when it is not set.
  \<^item> \<open>db_select\<close>: the result of \<open>db.select().from(project).execute()\<close>.
  \<^item> \<open>hf_featureExtraction k text\<close>: the result of the \<open>k\<close>-th call of the run to
    \<open>hf.featureExtraction\<close>, with input \<open>text\<close>.
  \<^item> \<open>settle_time i\<close>: when the \<open>i\<close>-th promise handed to \<open>Promise.all\<close> settles.
  \<^item> \<open>index_upsert st vs\<close>: what the index does with an upsert: whether it rejects, and
    its state afterwards.
  \<^item> \<open>index_query\<close>: the index's answer to a query.
  \<^item> \<open>streamText_throws\<close>: whether the call of \<open>streamText\<close> throws.
  \<^item> \<open>Number_toString\<close>: the runtime's \<open>Number::toString\<close> on a finite number, its
    shortest digits that read back as the same double, in exponent notation from \<open>10^21\<close>
    on. The model calls it where it does not compute the digits itself: in \<open>toFixed\<close> for
    a magnitude of at least \<open>10^21\<close>, in \<open>JSON.stringify\<close> for a number that is not an
    integer of magnitude below \<open>2^53\<close>.
\<close>

record env =
  PINECONE_API_KEY :: "string option"
  db_select :: "thrown + project list"
  hf_featureExtraction :: "nat \<Rightarrow> string \<Rightarrow> thrown + jsval"
  settle_time :: "nat \<Rightarrow> nat"
  index_upsert :: "index_state \<Rightarrow> PineconeVector list \<Rightarrow> thrown option \<times> index_state"
  index_query :: "QueryOptions \<Rightarrow> thrown + QueryResponse"
  streamText_throws :: "thrown option"
  Number_toString :: "rat \<Rightarrow> string"

text \<open>The body and status of \<open>NextResponse.json\<close>, or the data stream of the generation.\<close>

datatype json_body =
    Success_body bool string nat
  | Error_body string

datatype response =
    NextResponse_json json_body nat
  | DataStreamResponse string "CoreMessage list"

subsection \<open>Runtime functions of JavaScript\<close>

text \<open>\<open>n.toString()\<close> for a non-negative integer: its decimal digits.\<close>

definition digit_char :: "nat \<Rightarrow> char" where
  "digit_char d = char_of (48 + d)"

fun nat_toString :: "nat \<Rightarrow> string" where
  "nat_toString n =
     (if n < 10 then [digit_char n] else nat_toString (n div 10) @ [digit_char (n mod 10)])"

declare nat_toString.simps [simp del]

text \<open>\<open>Array.prototype.join\<close> on strings.\<close>

fun join :: "string \<Rightarrow> string list \<Rightarrow> string" where
  "join sep [] = []"
| "join sep [x] = x"
| "join sep (x # y # ys) = x @ sep @ join sep (y # ys)"

text \<open>\<open>String.prototype.trim\<close>: the white space and line terminators below 256 are
  TAB, LF, VT, FF, CR, SP and NBSP.\<close>

definition is_whitespace :: "char \<Rightarrow> bool" where
  "is_whitespace c = (of_char c \<in> {9, 10, 11, 12, 13, 32, 160 :: nat})"

definition trim :: "string \<Rightarrow> string" where
  "trim s = rev (dropWhile is_whitespace (rev (dropWhile is_whitespace s)))"

text \<open>\<open>x || d\<close> on a nullable string: \<open>null\<close> and the empty string are falsy.\<close>

definition or_default :: "string option \<Rightarrow> string \<Rightarrow> string" where
  "or_default x d = (case x of None \<Rightarrow> d | Some s \<Rightarrow> if s = [] then d else s)"

text \<open>A nullable string inside a template literal: \<open>null\<close> prints as \<open>null\<close>.\<close>

definition template_str :: "string option \<Rightarrow> string" where
  "template_str x = (case x of None \<Rightarrow> ''null'' | Some s \<Rightarrow> s)"

text \<open>\<open>JSON.stringify\<close>: \<open>QuoteJSONString\<close> escapes the quote, the backslash and the
  control characters.\<close>

definition hex_char :: "nat \<Rightarrow> char" where
  "hex_char d = (if d < 10 then char_of (48 + d) else char_of (87 + d))"

definition escape_char :: "char \<Rightarrow> string" where
  "escape_char c =
     (let n = (of_char c :: nat) in
      if n = 8 then [CHR 0x5C, CHR ''b'']
      else if n = 9 then [CHR 0x5C, CHR ''t'']
      else if n = 10 then [CHR 0x5C, CHR ''n'']
      else if n = 12 then [CHR 0x5C, CHR ''f'']
      else if n = 13 then [CHR 0x5C, CHR ''r'']
      else if n = 34 then [CHR 0x5C, CHR 0x22]
      else if n = 92 then [CHR 0x5C, CHR 0x5C]
      else if n < 32 then [CHR 0x5C, CHR ''u'', CHR ''0'', CHR ''0'', hex_char (n div 16), hex_char (n mod 16)]
      else [c])"

definition quote_json :: "string \<Rightarrow> string" where
  "quote_json s = [CHR 0x22] @ concat (map escape_char s) @ [CHR 0x22]"

text \<open>
  A number in \<open>JSON.stringify\<close>: \<open>null\<close> when it is not finite, \<open>Number::toString\<close>
  otherwise. Every integer of magnitude below \<open>2^53\<close> is a double of its own, and its
  shortest digits are its decimal digits; the digits of any other number are the
  runtime's (\<open>2^60\<close> prints as \<open>1152921504606847000\<close>).
\<close>

definition serialize_number :: "(rat \<Rightarrow> string) \<Rightarrow> jsnum \<Rightarrow> string" where
  "serialize_number toString v =
     (case v of
        NaN \<Rightarrow> ''null''
      | PosInfinity \<Rightarrow> ''null''
      | NegInfinity \<Rightarrow> ''null''
      | Finite q \<Rightarrow>
          if of_int \<lfloor>q\<rfloor> = q \<and> \<bar>q\<bar> < 2 ^ 53
          then (if q < 0 then ''-'' else []) @ nat_toString (nat \<bar>\<lfloor>q\<rfloor>\<bar>)
          else toString q)"

fun JSON_stringify :: "(rat \<Rightarrow> string) \<Rightarrow> json \<Rightarrow> string" where
  "JSON_stringify toString JNull = ''null''"
| "JSON_stringify toString (JBool b) = (if b then ''true'' else ''false'')"
| "JSON_stringify toString (JNum v) = serialize_number toString v"
| "JSON_stringify toString (JStr s) = quote_json s"
| "JSON_stringify toString (JArr xs) =
     ''['' @ join '','' (map (JSON_stringify toString) xs) @ '']''"
| "JSON_stringify toString (JObj kvs) =
     ''{'' @ join '','' (map (\<lambda>(k, v). quote_json k @ '':'' @ JSON_stringify toString v) kvs) @
     ''}''"

text \<open>
  The global \<open>isNaN(v)\<close>: \<open>v\<close> is converted to a number first. An array converts through
  its string, the \<open>join\<close> of its elements with commas: the empty array gives the empty
  string, which is \<open>0\<close>; a one-element array gives what its element gives; a longer one
  has a comma in its string, which is no numeral, hence \<open>NaN\<close>.
\<close>

fun isNaN :: "jsval \<Rightarrow> bool" where
  "isNaN (Num x) = (x = NaN)"
| "isNaN (Arr []) = False"
| "isNaN (Arr [v]) = isNaN v"
| "isNaN (Arr (v # w # vs)) = True"

text \<open>\<open>Array.prototype.flat()\<close>, depth 1: an element that is an array is replaced by its
  elements.\<close>

fun flat :: "jsval list \<Rightarrow> jsval list" where
  "flat [] = []"
| "flat (Arr ys # xs) = ys @ flat xs"
| "flat (Num x # xs) = Num x # flat xs"

text \<open>\<open>error instanceof Error ? error.message : "An unknown error occurred."\<close>\<close>

definition errorMessage :: "thrown \<Rightarrow> string" where
  "errorMessage e = (case e of JsError m \<Rightarrow> m | NonError \<Rightarrow> ''An unknown error occurred.'')"

text \<open>
  \<open>Promise.all\<close>: fulfilled with the values in the order of the promises when all are
  fulfilled, rejected with the reason of the promise that rejects first otherwise.
\<close>

fun rejections :: "nat \<Rightarrow> (thrown + 'a) list \<Rightarrow> (nat \<times> thrown) list" where
  "rejections i [] = []"
| "rejections i (Inl e # rs) = (i, e) # rejections (Suc i) rs"
| "rejections i (Inr v # rs) = rejections (Suc i) rs"

fun fulfilled :: "(thrown + 'a) list \<Rightarrow> 'a list" where
  "fulfilled [] = []"
| "fulfilled (Inl e # rs) = fulfilled rs"
| "fulfilled (Inr v # rs) = v # fulfilled rs"

fun earliest :: "(nat \<Rightarrow> nat) \<Rightarrow> nat \<times> thrown \<Rightarrow> (nat \<times> thrown) list \<Rightarrow> thrown" where
  "earliest t (i, e) [] = e"
| "earliest t (i, e) ((j, e') # rest) =
     earliest t (if t j < t i then (j, e') else (i, e)) rest"

definition Promise_all :: "(nat \<Rightarrow> nat) \<Rightarrow> (thrown + 'a) list \<Rightarrow> thrown + 'a list" where
  "Promise_all t rs =
     (case rejections 0 rs of
        [] \<Rightarrow> Inr (fulfilled rs)
      | r # rest \<Rightarrow> Inl (earliest t r rest))"

subsection \<open>\<open>getPineconeIndex\<close> and \<open>getEmbedding\<close>\<close>

text \<open>\<open>!process.env.PINECONE_API_KEY\<close> holds when the variable is not set or empty.\<close>

definition getPineconeIndex :: "env \<Rightarrow> thrown + unit" where
  "getPineconeIndex ev =
     (case PINECONE_API_KEY ev of
        None \<Rightarrow> Inl (JsError ''PINECONE_API_KEY environment variable is not set.'')
      | Some k \<Rightarrow>
          if k = [] then Inl (JsError ''PINECONE_API_KEY environment variable is not set.'')
          else Inr ())"

text \<open>\<open>Array.isArray(response[0])\<close>; \<open>response[0]\<close> of an empty array is \<open>undefined\<close>.\<close>

fun first_isArray :: "jsval list \<Rightarrow> bool" where
  "first_isArray (Arr ys # xs) = True"
| "first_isArray xs = False"

definition getEmbedding :: "env \<Rightarrow> nat \<Rightarrow> string \<Rightarrow> thrown + jsval list" where
  "getEmbedding ev k text =
     (case hf_featureExtraction ev k text of
        Inl e \<Rightarrow> Inl e
      | Inr response \<Rightarrow>
          (case response of
             Arr xs \<Rightarrow> if first_isArray xs then Inr (flat xs) else Inr xs
           | Num x \<Rightarrow> Inl (JsError ''Invalid embedding response format'')))"

subsection \<open>The \<open>GET\<close> handler: indexing\<close>

text \<open>\<open>p.aiDescription && p.aiDescription.trim() !== ""\<close>\<close>

definition has_description :: "project \<Rightarrow> bool" where
  "has_description p =
     (case aiDescription p of
        None \<Rightarrow> False
      | Some d \<Rightarrow> d \<noteq> [] \<and> trim d \<noteq> [])"

definition projectsWithDescription :: "project list \<Rightarrow> project list" where
  "projectsWithDescription allProjects = filter has_description allProjects"

text \<open>\<open>p.aiDescription!\<close>: the assertion does nothing at run time; the filter has removed
  the rows where the column is \<open>null\<close>.\<close>

definition description_of :: "project \<Rightarrow> string" where
  "description_of p = (case aiDescription p of None \<Rightarrow> [] | Some d \<Rightarrow> d)"

text \<open>The callback of \<open>projectsWithDescription.map\<close>. \<open>getEmbedding\<close> returns an array
  whenever it returns, so of the test \<open>!Array.isArray(embedding) || embedding.some(isNaN)\<close>
  the second disjunct decides.\<close>

definition vector_of :: "env \<Rightarrow> project \<Rightarrow> nat \<Rightarrow> thrown + PineconeVector" where
  "vector_of ev p i =
     (case getEmbedding ev i (description_of p) of
        Inl e \<Rightarrow> Inl e
      | Inr embedding \<Rightarrow>
          if list_ex isNaN embedding
          then Inl (JsError (''Invalid embedding for project '' @ template_str (projectName p)))
          else Inr \<lparr>id_v = nat_toString i,
                    values_v = embedding,
                    metadata_v = \<lparr>md_projectName = or_default (projectName p) ''Unnamed Project'',
                                  md_description = description_of p,
                                  md_languages = JSON_stringify (Number_toString ev) (languages p),
                                  md_owner = or_default (projectOwner p) ''Unknown Owner''\<rparr>\<rparr>)"

text \<open>\<open>arr.map((p, id) => ...)\<close>: the callback on each element with its position.\<close>

fun map_index :: "(project \<Rightarrow> nat \<Rightarrow> 'b) \<Rightarrow> nat \<Rightarrow> project list \<Rightarrow> 'b list" where
  "map_index f i [] = []"
| "map_index f i (p # ps) = f p i # map_index f (Suc i) ps"

definition vectors :: "env \<Rightarrow> project list \<Rightarrow> thrown + PineconeVector list" where
  "vectors ev allProjects =
     Promise_all (settle_time ev) (map_index (vector_of ev) 0 (projectsWithDescription allProjects))"

text \<open>
  The \<open>try\<close> block: what it returns or throws, the state of the index afterwards, and the
  calls made. Every callback starts its \<open>featureExtraction\<close> call before \<open>Promise.all\<close>
  is awaited, so all of them are in the list of calls.
\<close>

definition GET_try :: "env \<Rightarrow> index_state \<Rightarrow> (thrown + json_body) \<times> index_state \<times> call list" where
  "GET_try ev st =
     (case getPineconeIndex ev of
        Inl e \<Rightarrow> (Inl e, st, [])
      | Inr index \<Rightarrow>
          (case db_select ev of
             Inl e \<Rightarrow> (Inl e, st, [DbSelect])
           | Inr allProjects \<Rightarrow>
               (let calls = DbSelect #
                      map (\<lambda>p. FeatureExtraction (description_of p))
                        (projectsWithDescription allProjects)
                in case vectors ev allProjects of
                     Inl e \<Rightarrow> (Inl e, st, calls)
                   | Inr vs \<Rightarrow>
                       if length vs > 0 then
                         (case index_upsert ev st vs of
                            (Some e, st') \<Rightarrow> (Inl e, st', calls @ [Upsert vs])
                          | (None, st') \<Rightarrow>
                              (Inr (Success_body True ''Data successfully sent to Pinecone.'' (length vs)),
                               st', calls @ [Upsert vs]))
                       else
                         (Inr (Success_body True ''Data successfully sent to Pinecone.'' (length vs)),
                          st, calls))))"

definition GET :: "env \<Rightarrow> index_state \<Rightarrow> response \<times> index_state \<times> call list" where
  "GET ev st =
     (case GET_try ev st of
        (Inr body, st', calls) \<Rightarrow> (NextResponse_json body 200, st', calls)
      | (Inl error, st', calls) \<Rightarrow>
          (NextResponse_json (Error_body (''Failed to process data: '' @ errorMessage error)) 500,
           st', calls))"

subsection \<open>The \<open>POST\<close> handler: retrieval and grounding\<close>

abbreviation nl :: string where
  "nl \<equiv> [CHR 0x0A]"

text \<open>\<open>messages.filter((msg) => msg.role === "user").pop()\<close>: the last message of role
  \<open>user\<close>, \<open>undefined\<close> when there is none.\<close>

definition latestUserMessage :: "CoreMessage list \<Rightarrow> CoreMessage option" where
  "latestUserMessage messages =
     (case rev (filter (\<lambda>msg. role msg = User) messages) of
        [] \<Rightarrow> None
      | m # ms \<Rightarrow> Some m)"

text \<open>
  \<open>Number.prototype.toFixed(4)\<close>, as ECMAScript defines it: a number that is not finite
  prints by name; a magnitude of at least \<open>10^21\<close> prints as \<open>toString\<close> does; otherwise
  \<open>n\<close> is the integer nearest to \<open>x * 10^4\<close> (the larger of two) and \<open>m\<close> its digits.
  Then (\<open>insert_point4\<close>) \<open>m\<close> is filled with zeros on the left up to five characters,
  and the point goes before the last four.
\<close>

definition insert_point4 :: "string \<Rightarrow> string" where
  "insert_point4 m =
     (let k = length m;
          m' = (if k \<le> 4 then replicate (4 + 1 - k) (CHR ''0'') @ m else m);
          k' = (if k \<le> 4 then 4 + 1 else k)
      in take (k' - 4) m' @ ''.'' @ drop (k' - 4) m')"

definition toFixed4 :: "(rat \<Rightarrow> string) \<Rightarrow> jsnum \<Rightarrow> string" where
  "toFixed4 toString v =
     (case v of
        NaN \<Rightarrow> ''NaN''
      | PosInfinity \<Rightarrow> ''Infinity''
      | NegInfinity \<Rightarrow> ''-Infinity''
      | Finite q \<Rightarrow>
          (let s = (if q < 0 then ''-'' else []);
               x = \<bar>q\<bar>
           in if x \<ge> 10 ^ 21 then s @ toString x
              else
                (let n = nat \<lfloor>x * 10 ^ 4 + 1 / 2\<rfloor>;
                     m = (if n = 0 then ''0'' else nat_toString n)
                 in s @ insert_point4 m)))"

text \<open>\<open>${match.score?.toFixed(4)}\<close>: a record without score prints \<open>undefined\<close>.\<close>

definition score_text :: "env \<Rightarrow> ScoredRecord \<Rightarrow> string" where
  "score_text ev match =
     (case score_m match of
        None \<Rightarrow> ''undefined''
      | Some x \<Rightarrow> toFixed4 (Number_toString ev) x)"

text \<open>The callback of \<open>matches?.map\<close>. \<open>match.metadata!\<close> does nothing at run time: reading
  a property of \<open>undefined\<close> throws a \<open>TypeError\<close> (the message is the one of V8).\<close>

definition render_match :: "env \<Rightarrow> ScoredRecord \<Rightarrow> thrown + string" where
  "render_match ev match =
     (case metadata_m match of
        None \<Rightarrow> Inl (JsError ''Cannot read properties of undefined (reading 'projectName')'')
      | Some metadata \<Rightarrow>
          Inr (''Project: '' @ md_projectName metadata @ nl @
               ''Owner: '' @ md_owner metadata @ nl @
               ''Description: '' @ md_description metadata @ nl @
               ''Relevance Score: '' @ score_text ev match @ nl))"

text \<open>\<open>Array.prototype.map\<close> with a callback that may throw: the first throw ends it.\<close>

fun map_throwing :: "('a \<Rightarrow> thrown + 'b) \<Rightarrow> 'a list \<Rightarrow> thrown + 'b list" where
  "map_throwing f [] = Inr []"
| "map_throwing f (x # xs) =
     (case f x of
        Inl e \<Rightarrow> Inl e
      | Inr y \<Rightarrow> (case map_throwing f xs of Inl e \<Rightarrow> Inl e | Inr ys \<Rightarrow> Inr (y # ys)))"

text \<open>\<open>queryResponse.matches?.map(...).join("\n---\n") ?? ""\<close>\<close>

definition context_of :: "env \<Rightarrow> QueryResponse \<Rightarrow> thrown + string" where
  "context_of ev queryResponse =
     (case matches queryResponse of
        None \<Rightarrow> Inr []
      | Some ms \<Rightarrow>
          (case map_throwing (render_match ev) ms of
             Inl e \<Rightarrow> Inl e
           | Inr ps \<Rightarrow> Inr (join (nl @ ''---'' @ nl) ps)))"

text \<open>The template literal of the system prompt, line by line.\<close>

definition systemPrompt :: "string \<Rightarrow> string" where
  "systemPrompt context =
     ''You are an expert assistant for openwave, a platform connecting open-source projects with contributors.'' @ nl @
     ''Your task is to answer user questions based ONLY on the context provided below.'' @ nl @
     nl @
     ''CONTEXT:'' @ nl @
     ''---'' @ nl @
     context @ nl @
     ''---'' @ nl @
     nl @
     ''IMPORTANT INSTRUCTIONS:'' @ nl @
     ''1.  ONLY use the information from the CONTEXT section to answer the query.'' @ nl @
     ''2.  If the context does not contain the answer, you MUST state: '' @ [CHR 0x22] @
       ''I don't have enough information to answer that.'' @ [CHR 0x22] @ nl @
     ''3.  Do NOT use any prior knowledge or information outside of the provided context.'' @ nl @
     ''4.  Do NOT make up or infer details not explicitly stated.'' @ nl @
     ''5.  When returning a project's details, format it clearly.'' @ nl"

text \<open>
  The \<open>try\<close> block of \<open>POST\<close>, on the result of \<open>req.json()\<close>: a throw, or the message
  list of the body.
\<close>

definition POST_try :: "env \<Rightarrow> thrown + CoreMessage list \<Rightarrow> (thrown + response) \<times> call list" where
  "POST_try ev req_json =
     (case req_json of
        Inl e \<Rightarrow> (Inl e, [])
      | Inr messages \<Rightarrow>
          (case latestUserMessage messages of
             None \<Rightarrow>
               (Inr (NextResponse_json (Error_body ''Invalid user message in request.'') 400), [])
           | Some m \<Rightarrow>
               (case content m of
                  Parts ps \<Rightarrow>
                    (Inr (NextResponse_json (Error_body ''Invalid user message in request.'') 400), [])
                | Text query \<Rightarrow>
                    (case getEmbedding ev 0 query of
                       Inl e \<Rightarrow> (Inl e, [FeatureExtraction query])
                     | Inr queryEmbedding \<Rightarrow>
                         (case getPineconeIndex ev of
                            Inl e \<Rightarrow> (Inl e, [FeatureExtraction query])
                          | Inr index \<Rightarrow>
                              (let options = \<lparr>vector = queryEmbedding, topK = 3, includeMetadata = True\<rparr>
                               in case index_query ev options of
                                    Inl e \<Rightarrow> (Inl e, [FeatureExtraction query, Query options])
                                  | Inr queryResponse \<Rightarrow>
                                      (case context_of ev queryResponse of
                                         Inl e \<Rightarrow> (Inl e, [FeatureExtraction query, Query options])
                                       | Inr context \<Rightarrow>
                                           (let calls = [FeatureExtraction query, Query options,
                                                         StreamText (systemPrompt context) messages]
                                            in case streamText_throws ev of
                                                 Some e \<Rightarrow> (Inl e, calls)
                                               | None \<Rightarrow>
                                                   (Inr (DataStreamResponse (systemPrompt context) messages),
                                                    calls)))))))))"

definition POST :: "env \<Rightarrow> thrown + CoreMessage list \<Rightarrow> response \<times> call list" where
  "POST ev req_json =
     (case POST_try ev req_json of
        (Inr resp, calls) \<Rightarrow> (resp, calls)
      | (Inl error, calls) \<Rightarrow>
          (NextResponse_json
             (Error_body (''Failed to process RAG request: '' @ errorMessage error)) 500,
           calls))"

subsection \<open>The specification's notions\<close>

text \<open>A description is blank when it is absent, empty, or made of white space only.\<close>

definition blank_description :: "project \<Rightarrow> bool" where
  "blank_description p =
     (case aiDescription p of
        None \<Rightarrow> True
      | Some d \<Rightarrow> d = [] \<or> list_all is_whitespace d)"

text \<open>
  The language mapping of a record, language to usage count, and its JSON text: between
  braces, the members \<open>"language":count\<close> in order, separated by commas. A usage is plain
  when the language's name has no character that JSON escapes (quote, backslash, control
  characters) and the count is below \<open>2^53\<close>.
\<close>

definition language_mapping :: "(string \<times> nat) list \<Rightarrow> json" where
  "language_mapping usage = JObj (map (\<lambda>u. (fst u, JNum (Finite (of_nat (snd u))))) usage)"

definition member_text :: "string \<times> nat \<Rightarrow> string" where
  "member_text u = [CHR 0x22] @ fst u @ [CHR 0x22] @ '':'' @ nat_toString (snd u)"

definition language_mapping_text :: "(string \<times> nat) list \<Rightarrow> string" where
  "language_mapping_text usage = ''{'' @ join '','' (map member_text usage) @ ''}''"

definition needs_no_escape :: "char \<Rightarrow> bool" where
  "needs_no_escape c = (let n = (of_char c :: nat) in 32 \<le> n \<and> n \<noteq> 34 \<and> n \<noteq> 92)"

definition plain_usage :: "string \<times> nat \<Rightarrow> bool" where
  "plain_usage u = (list_all needs_no_escape (fst u) \<and> snd u < 2 ^ 53)"

text \<open>The value of a string of decimal digits.\<close>

definition decimal_value :: "string \<Rightarrow> nat" where
  "decimal_value s = foldl (\<lambda>a c. 10 * a + (of_char c - 48)) 0 s"

text \<open>
  A number rounded to exactly four decimal places: with \<open>n\<close> the integer nearest to
  \<open>\<bar>q\<bar> * 10^4\<close>, the sign, the digits of the integer part \<open>n div 10^4\<close>, a point, and the
  four digits of \<open>n mod 10^4\<close>.
\<close>

definition rounded4 :: "rat \<Rightarrow> string" where
  "rounded4 q =
     (let n = nat \<lfloor>\<bar>q\<bar> * 10000 + 1 / 2\<rfloor>
      in (if q < 0 then ''-'' else []) @ nat_toString (n div 10000) @ ''.'' @
         [digit_char (n div 1000 mod 10), digit_char (n div 100 mod 10),
          digit_char (n div 10 mod 10), digit_char (n mod 10)])"

text \<open>The fixed-format paragraph of a match, given the text of its score.\<close>

definition paragraph_with :: "PineconeMetadata \<Rightarrow> string \<Rightarrow> string" where
  "paragraph_with md score =
     ''Project: '' @ md_projectName md @ nl @
     ''Owner: '' @ md_owner md @ nl @
     ''Description: '' @ md_description md @ nl @
     ''Relevance Score: '' @ score @ nl"

text \<open>A match that carries metadata and a finite score of magnitude below \<open>10^21\<close>.\<close>

definition well_scored :: "ScoredRecord \<Rightarrow> bool" where
  "well_scored m =
     (case (metadata_m m, score_m m) of
        (Some md, Some (Finite q)) \<Rightarrow> \<bar>q\<bar> < 10 ^ 21
      | _ \<Rightarrow> False)"

definition expected_paragraph :: "ScoredRecord \<Rightarrow> string" where
  "expected_paragraph m =
     (case (metadata_m m, score_m m) of
        (Some md, Some (Finite q)) \<Rightarrow> paragraph_with md (rounded4 q)
      | _ \<Rightarrow> [])"

text \<open>
  Modelled from the spec: the \<open>query\<close> operation of the external vector index, whose code
  is not part of the repository. Section 4.2: it returns at most \<open>k\<close> matches, and matches
  lacking metadata are never returned when the request asks for metadata.
\<close>

definition honours_query :: "QueryOptions \<Rightarrow> QueryResponse \<Rightarrow> bool" where
  "honours_query options queryResponse =
     (case matches queryResponse of
        None \<Rightarrow> True
      | Some ms \<Rightarrow>
          length ms \<le> topK options \<and>
          (\<not> includeMetadata options \<or> list_all (\<lambda>m. metadata_m m \<noteq> None) ms))"

subsection \<open>Example data\<close>

text \<open>The two source records of the specification's end-to-end scenario.\<close>

definition project_A :: project where
  "project_A = \<lparr>projectName = Some ''A'', aiDescription = Some ''desc'',
                 languages = JObj [(''js'', JNum (Finite 10))], projectOwner = Some ''bob''\<rparr>"

definition project_B :: project where
  "project_B = \<lparr>projectName = Some ''B'', aiDescription = Some [],
                 languages = JObj [], projectOwner = Some ''x''\<rparr>"

definition metadata_A :: PineconeMetadata where
  "metadata_A = \<lparr>md_projectName = ''A'', md_description = ''desc'',
                  md_languages = [CHR ''{'', CHR 0x22, CHR ''j'', CHR ''s'', CHR 0x22, CHR '':'',
                                  CHR ''1'', CHR ''0'', CHR ''}''],
                  md_owner = ''bob''\<rparr>"

text \<open>An environment in which every service answers: the embedding of any text is a
  two-component vector, an upsert appends, a query finds record A with score \<open>2/3\<close>.\<close>

definition example_env :: env where
  "example_env =
     \<lparr>PINECONE_API_KEY = Some ''key'',
      db_select = Inr [project_A, project_B],
      hf_featureExtraction = (\<lambda>k text. Inr (Arr [Num (Finite (1 / 2)), Num (Finite (- 1 / 4))])),
      settle_time = (\<lambda>i. i),
      index_upsert = (\<lambda>st vs. (None, st @ vs)),
      index_query = (\<lambda>options.
        Inr \<lparr>matches = Some [\<lparr>id_m = ''0'', score_m = Some (Finite (2 / 3)),
                                metadata_m = Some metadata_A\<rparr>]\<rparr>),
      streamText_throws = None,
      Number_toString = (\<lambda>q. [])\<rparr>"

text \<open>The same, with an embedding model that fails, that returns \<open>NaN\<close>, that returns an
  infinite component, and that returns three components.\<close>

definition failing_model_env :: env where
  "failing_model_env =
     example_env\<lparr>hf_featureExtraction := (\<lambda>k text. Inl (JsError ''model unavailable''))\<rparr>"



definition three_model_env :: env where
  "three_model_env =
     example_env\<lparr>hf_featureExtraction :=
       (\<lambda>k text. Inr (Arr [Num (Finite 1), Num (Finite 2), Num (Finite 3)]))\<rparr>"

text \<open>An embedding model that answers token-level embeddings: two rows of dimension 384.\<close>

definition token_level_env :: env where
  "token_level_env =
     example_env\<lparr>hf_featureExtraction :=
       (\<lambda>k text. Inr (Arr [Arr (replicate 384 (Num (Finite 0))),
                             Arr (replicate 384 (Num (Finite 0)))]))\<rparr>"

text \<open>The request of the specification's second scenario.\<close>

definition example_messages :: "CoreMessage list" where
  "example_messages = [\<lparr>role = User, content = Text ''What does project A do?''\<rparr>]"

text \<open>A match without score.\<close>

definition unscored_match :: ScoredRecord where
  "unscored_match = \<lparr>id_m = ''0'', score_m = None, metadata_m = Some metadata_A\<rparr>"

section \<open>Properties\<close>

subsection \<open>\<open>Promise.all\<close> and the batch of vectors\<close>

lemma rejections_Nil_iff: "rejections i rs = [] \<longleftrightarrow> rs = map Inr (fulfilled rs)"
  by (induction i rs rule: rejections.induct) auto

lemma rejections_in: "(j, e) \<in> set (rejections i rs) \<Longrightarrow> Inl e \<in> set rs"
  by (induction i rs rule: rejections.induct) auto

lemma earliest_in: "earliest t r rest = snd r \<or> earliest t r rest \<in> snd ` set rest"
proof (induction t r rest rule: earliest.induct)
  case (1 t i e)
  then show ?case by simp
next
  case (2 t i e j e' rest)
  then show ?case by (cases "t j < t i") auto
qed

lemma Promise_all_Inr_iff: "Promise_all t rs = Inr vs \<longleftrightarrow> rs = map Inr vs"
proof
  assume "Promise_all t rs = Inr vs"
  then have "rejections 0 rs = []" and "vs = fulfilled rs"
    by (auto simp: Promise_all_def split: list.splits)
  then show "rs = map Inr vs" by (simp add: rejections_Nil_iff)
next
  assume a: "rs = map Inr vs"
  have f: "fulfilled (map Inr vs) = vs" for vs :: "'a list" by (induction vs) auto
  have "rejections 0 rs = []" using a f by (simp add: rejections_Nil_iff)
  then show "Promise_all t rs = Inr vs" using a f by (simp add: Promise_all_def)
qed

lemma Promise_all_Inl: "Promise_all t rs = Inl e \<Longrightarrow> \<exists>j < length rs. rs ! j = Inl e"
proof -
  assume a: "Promise_all t rs = Inl e"
  then obtain r rest where r: "rejections 0 rs = r # rest" and e: "e = earliest t r rest"
    by (auto simp: Promise_all_def split: list.splits)
  have "e \<in> snd ` set (rejections 0 rs)" using earliest_in[of t r rest] r e by auto
  then obtain j where "(j, e) \<in> set (rejections 0 rs)" by force
  then have "Inl e \<in> set rs" by (rule rejections_in)
  then show ?thesis by (simp add: in_set_conv_nth)
qed

lemma Promise_all_rejects: "j < length rs \<Longrightarrow> rs ! j = Inl e \<Longrightarrow> \<exists>e'. Promise_all t rs = Inl e'"
proof (cases "Promise_all t rs")
  case (Inl a)
  then show ?thesis by simp
next
  case (Inr vs)
  assume "j < length rs" "rs ! j = Inl e"
  moreover from Inr have "rs = map Inr vs" by (simp add: Promise_all_Inr_iff)
  ultimately show ?thesis by auto
qed

lemma length_map_index: "length (map_index f i ps) = length ps"
  by (induction f i ps rule: map_index.induct) auto

lemma nth_map_index: "j < length ps \<Longrightarrow> map_index f i ps ! j = f (ps ! j) (i + j)"
  by (induction f i ps arbitrary: j rule: map_index.induct) (auto simp: nth_Cons split: nat.splits)

lemma vectors_Inr:
  assumes "vectors ev allProjects = Inr vs"
  shows "length vs = length (projectsWithDescription allProjects)"
    and "j < length vs \<Longrightarrow> vector_of ev (projectsWithDescription allProjects ! j) j = Inr (vs ! j)"
proof -
  from assms have eq: "map_index (vector_of ev) 0 (projectsWithDescription allProjects) = map Inr vs"
    by (simp add: vectors_def Promise_all_Inr_iff)
  from arg_cong[OF eq, of length] show len: "length vs = length (projectsWithDescription allProjects)"
    by (simp add: length_map_index)
  assume j: "j < length vs"
  from arg_cong[OF eq, of "\<lambda>xs. xs ! j"] j len show "vector_of ev (projectsWithDescription allProjects ! j) j = Inr (vs ! j)"
    by (simp add: nth_map_index)
qed

lemma vectors_Inl:
  assumes "j < length (projectsWithDescription allProjects)"
    and "vector_of ev (projectsWithDescription allProjects ! j) j = Inl e"
  shows "\<exists>e'. vectors ev allProjects = Inl e'"
  unfolding vectors_def
  by (rule Promise_all_rejects[where j = j and e = e]) (use assms in \<open>simp_all add: length_map_index nth_map_index\<close>)

lemma vectors_Inl_reason:
  assumes "vectors ev allProjects = Inl e"
  shows "\<exists>j < length (projectsWithDescription allProjects). vector_of ev (projectsWithDescription allProjects ! j) j = Inl e"
  using Promise_all_Inl[OF assms[unfolded vectors_def]]
  by (auto simp: length_map_index nth_map_index)

lemma GET_try_vectors_Inl:
  assumes "db_select ev = Inr allProjects" and "vectors ev allProjects = Inl e"
  shows "\<exists>e' calls. GET_try ev st = (Inl e', st, calls) \<and> (\<forall>vs. Upsert vs \<notin> set calls)"
  using assms by (auto simp: GET_try_def Let_def split: sum.splits)

lemma GET_of_try_Inl:
  "GET_try ev st = (Inl e, st', calls) \<Longrightarrow>
   GET ev st = (NextResponse_json (Error_body (''Failed to process data: '' @ errorMessage e)) 500, st', calls)"
  by (simp add: GET_def)

subsection \<open>Indexing: failures\<close>

lemma example_eligible: "projectsWithDescription [project_A, project_B] = [project_A]"
  by (simp add: projectsWithDescription_def has_description_def project_A_def project_B_def trim_def is_whitespace_def)

lemma GET_aborts:
  assumes db: "db_select ev = Inr allProjects"
    and i: "i < length (projectsWithDescription allProjects)"
    and bad: "vector_of ev (projectsWithDescription allProjects ! i) i = Inl e"
  shows "\<exists>msg calls.
           GET ev st = (NextResponse_json (Error_body (''Failed to process data: '' @ msg)) 500, st, calls)
           \<and> (\<forall>vs. Upsert vs \<notin> set calls)"
proof -
  from vectors_Inl[OF i bad] obtain e' where "vectors ev allProjects = Inl e'" ..
  from GET_try_vectors_Inl[OF db this, of st] obtain e'' calls
    where t: "GET_try ev st = (Inl e'', st, calls)" and u: "\<forall>vs. Upsert vs \<notin> set calls" by blast
  from GET_of_try_Inl[OF t] u show ?thesis by blast
qed

text \<open>
  Claim C1. When, for some eligible record, the embedding call fails or the computed vector
  is judged invalid, the indexing run ends with one error response (status 500), the
  state of the vector index is the one before the run, and no upsert has been called.
\<close>

theorem indexing_is_all_or_nothing:
  assumes db: "db_select ev = Inr allProjects"
    and i: "i < length (projectsWithDescription allProjects)"
    and bad: "(\<exists>e. getEmbedding ev i (description_of (projectsWithDescription allProjects ! i)) = Inl e) \<or>
              (\<exists>embedding. getEmbedding ev i (description_of (projectsWithDescription allProjects ! i)) = Inr embedding
                 \<and> list_ex isNaN embedding)"
  shows "\<exists>msg calls.
           GET ev st = (NextResponse_json (Error_body (''Failed to process data: '' @ msg)) 500, st, calls)
           \<and> (\<forall>vs. Upsert vs \<notin> set calls)"
proof -
  from bad obtain e where "vector_of ev (projectsWithDescription allProjects ! i) i = Inl e"
    by (auto simp: vector_of_def)
  from GET_aborts[OF db i this] show ?thesis .
qed

theorem indexing_is_all_or_nothing_witness:
  "db_select failing_model_env = Inr [project_A, project_B]
   \<and> 0 < length (projectsWithDescription [project_A, project_B])
   \<and> (\<exists>msg calls.
         GET failing_model_env [] =
           (NextResponse_json (Error_body (''Failed to process data: '' @ msg)) 500, [], calls)
         \<and> (\<forall>vs. Upsert vs \<notin> set calls))"
proof -
  have db: "db_select failing_model_env = Inr [project_A, project_B]"
    by (simp add: failing_model_env_def example_env_def)
  have i: "0 < length (projectsWithDescription [project_A, project_B])"
    by (simp add: example_eligible)
  have bad: "(\<exists>e. getEmbedding failing_model_env 0
                    (description_of (projectsWithDescription [project_A, project_B] ! 0)) = Inl e) \<or>
             (\<exists>embedding. getEmbedding failing_model_env 0
                    (description_of (projectsWithDescription [project_A, project_B] ! 0)) = Inr embedding
                 \<and> list_ex isNaN embedding)"
    by (simp add: getEmbedding_def failing_model_env_def example_env_def)
  from indexing_is_all_or_nothing[OF db i bad, of "[]"] db i show ?thesis by blast
qed

subsection \<open>Indexing: the validity check\<close>



lemma example_description: "description_of project_A = ''desc''"
  by (simp add: description_of_def project_A_def)


lemma digit_char_simps:
  "digit_char 0 = CHR ''0''" "digit_char 1 = CHR ''1''" "digit_char 2 = CHR ''2''"
  "digit_char 3 = CHR ''3''" "digit_char 4 = CHR ''4''" "digit_char 5 = CHR ''5''"
  "digit_char 6 = CHR ''6''" "digit_char 7 = CHR ''7''" "digit_char 8 = CHR ''8''"
  "digit_char 9 = CHR ''9''" "digit_char (Suc 0) = CHR ''1''"
  by code_simp+

lemma nat_toString_small: "n < 10 \<Longrightarrow> nat_toString n = [digit_char n]"
  by (simp add: nat_toString.simps)

lemma nat_toString_large: "10 \<le> n \<Longrightarrow> nat_toString n = nat_toString (n div 10) @ [digit_char (n mod 10)]"
  by (subst nat_toString.simps) simp

lemma stringify_example: "JSON_stringify ts (languages project_A) = md_languages metadata_A"
  by (simp add: project_A_def metadata_A_def serialize_number_def quote_json_def escape_char_def
      nat_toString_large nat_toString_small digit_char_simps)

lemma vector_of_example:
  assumes "getEmbedding ev 0 ''desc'' = Inr embedding" and "\<not> list_ex isNaN embedding"
  shows "vector_of ev project_A 0 = Inr \<lparr>id_v = ''0'', values_v = embedding, metadata_v = metadata_A\<rparr>"
  using assms stringify_example
  by (simp add: vector_of_def example_description nat_toString_small digit_char_simps or_default_def)
     (simp add: project_A_def metadata_A_def)


subsection \<open>Indexing: the error response\<close>

lemma GET_try_cases:
  "GET_try ev st =
     (case getPineconeIndex ev of
        Inl e \<Rightarrow> (Inl e, st, [])
      | Inr index \<Rightarrow>
          (case db_select ev of
             Inl e \<Rightarrow> (Inl e, st, [DbSelect])
           | Inr allProjects \<Rightarrow>
               (case vectors ev allProjects of
                  Inl e \<Rightarrow> (Inl e, st, DbSelect # map (\<lambda>p. FeatureExtraction (description_of p)) (projectsWithDescription allProjects))
                | Inr vs \<Rightarrow>
                    if vs = [] then (Inr (Success_body True ''Data successfully sent to Pinecone.'' 0), st,
                                     DbSelect # map (\<lambda>p. FeatureExtraction (description_of p)) (projectsWithDescription allProjects))
                    else (case fst (index_upsert ev st vs) of
                            Some e \<Rightarrow> Inl e
                          | None \<Rightarrow> Inr (Success_body True ''Data successfully sent to Pinecone.'' (length vs)),
                          snd (index_upsert ev st vs),
                          DbSelect # map (\<lambda>p. FeatureExtraction (description_of p)) (projectsWithDescription allProjects) @ [Upsert vs]))))"
  by (auto simp: GET_try_def Let_def split: sum.splits prod.splits option.splits)

lemma fst_GET:
  "fst (GET ev st) =
     (case fst (GET_try ev st) of
        Inr body \<Rightarrow> NextResponse_json body 200
      | Inl error \<Rightarrow> NextResponse_json (Error_body (''Failed to process data: '' @ errorMessage error)) 500)"
  by (cases "GET_try ev st") (auto simp: GET_def split: sum.splits)

lemma fst_GET_try_Inr:
  "fst (GET_try ev st) = Inr body \<Longrightarrow> \<exists>n. body = Success_body True ''Data successfully sent to Pinecone.'' n"
  by (auto simp: GET_try_cases split: sum.splits option.splits if_splits)

text \<open>
  Claim C10. Every failure of the indexing handler gives a JSON error response of status
  500 whose message is \<open>Failed to process data: \<close> followed by the message of what was
  thrown: the missing API key, a failed database read, a failed embedding or an invalid
  vector, a rejected upsert. The handler returns nothing but the success response or such
  a response.
\<close>

theorem GET_failures_are_500:
  "(getPineconeIndex ev = Inl e \<longrightarrow>
      fst (GET ev st) = NextResponse_json (Error_body (''Failed to process data: '' @ errorMessage e)) 500)
   \<and> (PINECONE_API_KEY ev = None \<longrightarrow>
      fst (GET ev st) = NextResponse_json
        (Error_body ''Failed to process data: PINECONE_API_KEY environment variable is not set.'') 500)
   \<and> (getPineconeIndex ev = Inr () \<and> db_select ev = Inl e \<longrightarrow>
      fst (GET ev st) = NextResponse_json (Error_body (''Failed to process data: '' @ errorMessage e)) 500)
   \<and> (getPineconeIndex ev = Inr () \<and> db_select ev = Inr allProjects
        \<and> i < length (projectsWithDescription allProjects)
        \<and> vector_of ev (projectsWithDescription allProjects ! i) i = Inl e' \<longrightarrow>
      (\<exists>j < length (projectsWithDescription allProjects). \<exists>r.
         vector_of ev (projectsWithDescription allProjects ! j) j = Inl r
         \<and> fst (GET ev st) = NextResponse_json (Error_body (''Failed to process data: '' @ errorMessage r)) 500))
   \<and> (getPineconeIndex ev = Inr () \<and> db_select ev = Inr allProjects
        \<and> vectors ev allProjects = Inr vs \<and> vs \<noteq> [] \<and> fst (index_upsert ev st vs) = Some e \<longrightarrow>
      fst (GET ev st) = NextResponse_json (Error_body (''Failed to process data: '' @ errorMessage e)) 500)
   \<and> ((\<exists>n. fst (GET ev st) = NextResponse_json (Success_body True ''Data successfully sent to Pinecone.'' n) 200)
        \<or> (\<exists>msg. fst (GET ev st) = NextResponse_json (Error_body (''Failed to process data: '' @ msg)) 500))"
proof (intro conjI impI)
  assume "getPineconeIndex ev = Inl e"
  then show "fst (GET ev st) = NextResponse_json (Error_body (''Failed to process data: '' @ errorMessage e)) 500"
    by (simp add: fst_GET GET_try_cases)
next
  assume "PINECONE_API_KEY ev = None"
  then show "fst (GET ev st) = NextResponse_json
        (Error_body ''Failed to process data: PINECONE_API_KEY environment variable is not set.'') 500"
    by (simp add: fst_GET GET_try_cases getPineconeIndex_def errorMessage_def)
next
  assume "getPineconeIndex ev = Inr () \<and> db_select ev = Inl e"
  then show "fst (GET ev st) = NextResponse_json (Error_body (''Failed to process data: '' @ errorMessage e)) 500"
    by (simp add: fst_GET GET_try_cases)
next
  assume a: "getPineconeIndex ev = Inr () \<and> db_select ev = Inr allProjects
        \<and> i < length (projectsWithDescription allProjects)
        \<and> vector_of ev (projectsWithDescription allProjects ! i) i = Inl e'"
  then obtain r where r: "vectors ev allProjects = Inl r" using vectors_Inl by blast
  from vectors_Inl_reason[OF r] obtain j where j: "j < length (projectsWithDescription allProjects)"
    and v: "vector_of ev (projectsWithDescription allProjects ! j) j = Inl r" by blast
  have "fst (GET ev st) = NextResponse_json (Error_body (''Failed to process data: '' @ errorMessage r)) 500"
    using a r by (simp add: fst_GET GET_try_cases)
  with j v show "\<exists>j < length (projectsWithDescription allProjects). \<exists>r.
         vector_of ev (projectsWithDescription allProjects ! j) j = Inl r
         \<and> fst (GET ev st) = NextResponse_json (Error_body (''Failed to process data: '' @ errorMessage r)) 500"
    by blast
next
  assume "getPineconeIndex ev = Inr () \<and> db_select ev = Inr allProjects
        \<and> vectors ev allProjects = Inr vs \<and> vs \<noteq> [] \<and> fst (index_upsert ev st vs) = Some e"
  then show "fst (GET ev st) = NextResponse_json (Error_body (''Failed to process data: '' @ errorMessage e)) 500"
    by (simp add: fst_GET GET_try_cases)
next
  show "(\<exists>n. fst (GET ev st) = NextResponse_json (Success_body True ''Data successfully sent to Pinecone.'' n) 200)
        \<or> (\<exists>msg. fst (GET ev st) = NextResponse_json (Error_body (''Failed to process data: '' @ msg)) 500)"
  proof (cases "fst (GET_try ev st)")
    case (Inl error)
    then show ?thesis by (simp add: fst_GET)
  next
    case (Inr body)
    with fst_GET_try_Inr[OF Inr] show ?thesis by (auto simp: fst_GET)
  qed
qed

theorem GET_failures_are_500_witness:
  "PINECONE_API_KEY (example_env\<lparr>PINECONE_API_KEY := None\<rparr>) = None
   \<and> fst (GET (example_env\<lparr>PINECONE_API_KEY := None\<rparr>) []) =
       NextResponse_json
         (Error_body ''Failed to process data: PINECONE_API_KEY environment variable is not set.'') 500
   \<and> db_select (example_env\<lparr>db_select := Inl (JsError ''connection refused'')\<rparr>) =
       Inl (JsError ''connection refused'')
   \<and> fst (GET (example_env\<lparr>db_select := Inl (JsError ''connection refused'')\<rparr>) []) =
       NextResponse_json (Error_body ''Failed to process data: connection refused'') 500"
proof -
  have k: "getPineconeIndex (example_env\<lparr>db_select := Inl (JsError ''connection refused'')\<rparr>) = Inr ()"
    by (simp add: getPineconeIndex_def example_env_def)
  from GET_failures_are_500[of "example_env\<lparr>PINECONE_API_KEY := None\<rparr>"
      "JsError ''connection refused''" "[]" "[]" 0 "JsError ''connection refused''" "[]"]
    GET_failures_are_500[of "example_env\<lparr>db_select := Inl (JsError ''connection refused'')\<rparr>"
      "JsError ''connection refused''" "[]" "[]" 0 "JsError ''connection refused''" "[]"] k
  show ?thesis by (simp add: errorMessage_def)
qed

subsection \<open>Indexing: eligible records and vector records\<close>

lemma dropWhile_all_iff: "list_all P (dropWhile P xs) \<longleftrightarrow> list_all P xs"
  by (induction xs) auto

lemma trim_Nil_iff: "trim d = [] \<longleftrightarrow> list_all is_whitespace d"
proof -
  have "trim d = [] \<longleftrightarrow> list_all is_whitespace (rev (dropWhile is_whitespace d))"
    by (simp add: trim_def dropWhile_eq_Nil_conv list_all_iff)
  also have "\<dots> \<longleftrightarrow> list_all is_whitespace (dropWhile is_whitespace d)"
    by (simp add: list_all_iff)
  finally show ?thesis by (simp add: dropWhile_all_iff)
qed

lemma has_description_iff: "has_description p \<longleftrightarrow> \<not> blank_description p"
  by (auto simp: has_description_def blank_description_def trim_Nil_iff split: option.splits)

lemma projectsWithDescription_filter:
  "projectsWithDescription allProjects = filter (\<lambda>p. \<not> blank_description p) allProjects"
proof -
  have "has_description = (\<lambda>p. \<not> blank_description p)"
    by (rule ext) (rule has_description_iff)
  then show ?thesis by (simp add: projectsWithDescription_def)
qed

lemma projectsWithDescription_idem:
  "projectsWithDescription (projectsWithDescription allProjects) = projectsWithDescription allProjects"
  by (simp add: projectsWithDescription_def)

lemma vectors_db_select: "vectors (ev\<lparr>db_select := d\<rparr>) ps = vectors ev ps"
proof -
  have "vector_of (ev\<lparr>db_select := d\<rparr>) = vector_of ev"
    by (intro ext) (simp add: vector_of_def getEmbedding_def split: sum.splits)
  then show ?thesis by (simp add: vectors_def)
qed

lemma vectors_eligible_only: "vectors ev (projectsWithDescription allProjects) = vectors ev allProjects"
  by (simp add: vectors_def projectsWithDescription_idem)

lemma getPineconeIndex_db_select: "getPineconeIndex (ev\<lparr>db_select := d\<rparr>) = getPineconeIndex ev"
  by (simp add: getPineconeIndex_def)

lemma GET_eligible_only:
  "GET (ev\<lparr>db_select := Inr allProjects\<rparr>) st =
   GET (ev\<lparr>db_select := Inr (projectsWithDescription allProjects)\<rparr>) st"
proof (cases "getPineconeIndex ev")
  case (Inl e)
  then show ?thesis by (simp add: GET_def GET_try_def getPineconeIndex_db_select)
next
  case (Inr u)
  then show ?thesis
    by (simp add: GET_def GET_try_def getPineconeIndex_db_select vectors_db_select
        vectors_eligible_only projectsWithDescription_idem Let_def split: sum.splits)
qed

lemma vector_of_description:
  "vector_of ev p i = Inr v \<Longrightarrow> md_description (metadata_v v) = description_of p"
  by (auto simp: vector_of_def split: sum.splits if_splits)

text \<open>
  Claim C5. The eligible records are the fetched records whose description is not blank,
  each once and in fetch order; the batch holds, position by position, the vector record
  of each of them; and a run on the fetched list is the run on the list without its blank
  records: the excluded records leave no trace, and no error.
\<close>

theorem blank_descriptions_are_excluded:
  "projectsWithDescription allProjects = filter (\<lambda>p. \<not> blank_description p) allProjects
   \<and> (vectors ev allProjects = Inr vs \<longrightarrow>
        map Inr vs = map_index (vector_of ev) 0 (filter (\<lambda>p. \<not> blank_description p) allProjects)
        \<and> map (\<lambda>v. md_description (metadata_v v)) vs =
            map description_of (filter (\<lambda>p. \<not> blank_description p) allProjects))
   \<and> GET (ev\<lparr>db_select := Inr allProjects\<rparr>) st =
       GET (ev\<lparr>db_select := Inr (filter (\<lambda>p. \<not> blank_description p) allProjects)\<rparr>) st"
proof (intro conjI impI)
  show f: "projectsWithDescription allProjects = filter (\<lambda>p. \<not> blank_description p) allProjects"
    by (rule projectsWithDescription_filter)
  show "GET (ev\<lparr>db_select := Inr allProjects\<rparr>) st =
        GET (ev\<lparr>db_select := Inr (filter (\<lambda>p. \<not> blank_description p) allProjects)\<rparr>) st"
    unfolding f[symmetric] by (rule GET_eligible_only)
  assume vs: "vectors ev allProjects = Inr vs"
  then show "map Inr vs = map_index (vector_of ev) 0 (filter (\<lambda>p. \<not> blank_description p) allProjects)"
    unfolding f[symmetric] by (simp add: vectors_def Promise_all_Inr_iff)
  show "map (\<lambda>v. md_description (metadata_v v)) vs =
        map description_of (filter (\<lambda>p. \<not> blank_description p) allProjects)"
    unfolding f[symmetric]
  proof (rule nth_equalityI)
    show "length (map (\<lambda>v. md_description (metadata_v v)) vs) =
          length (map description_of (projectsWithDescription allProjects))"
      using vectors_Inr(1)[OF vs] by simp
    fix j assume "j < length (map (\<lambda>v. md_description (metadata_v v)) vs)"
    then have j: "j < length vs" by simp
    from vectors_Inr(2)[OF vs j] have "md_description (metadata_v (vs ! j)) =
        description_of (projectsWithDescription allProjects ! j)"
      by (rule vector_of_description)
    with j vectors_Inr(1)[OF vs]
    show "map (\<lambda>v. md_description (metadata_v v)) vs ! j =
          map description_of (projectsWithDescription allProjects) ! j" by simp
  qed
qed

lemma example_vectors:
  "vectors example_env [project_A, project_B] =
     Inr [\<lparr>id_v = ''0'', values_v = [Num (Finite (1 / 2)), Num (Finite (- 1 / 4))], metadata_v = metadata_A\<rparr>]"
proof -
  have emb: "getEmbedding example_env 0 ''desc'' = Inr [Num (Finite (1 / 2)), Num (Finite (- 1 / 4))]"
    by (simp add: getEmbedding_def example_env_def)
  have v: "vector_of example_env project_A 0 =
           Inr \<lparr>id_v = ''0'', values_v = [Num (Finite (1 / 2)), Num (Finite (- 1 / 4))], metadata_v = metadata_A\<rparr>"
    by (rule vector_of_example[OF emb]) simp
  show ?thesis by (simp add: vectors_def example_eligible v Promise_all_def)
qed

theorem blank_descriptions_are_excluded_witness:
  "vectors example_env [project_A, project_B] =
     Inr [\<lparr>id_v = ''0'', values_v = [Num (Finite (1 / 2)), Num (Finite (- 1 / 4))], metadata_v = metadata_A\<rparr>]
   \<and> filter (\<lambda>p. \<not> blank_description p) [project_A, project_B] = [project_A]
   \<and> map (\<lambda>v. md_description (metadata_v v))
        [\<lparr>id_v = ''0'', values_v = [Num (Finite (1 / 2)), Num (Finite (- 1 / 4))], metadata_v = metadata_A\<rparr>] =
      map description_of (filter (\<lambda>p. \<not> blank_description p) [project_A, project_B])"
  using blank_descriptions_are_excluded[of "[project_A, project_B]" example_env
      "[\<lparr>id_v = ''0'', values_v = [Num (Finite (1 / 2)), Num (Finite (- 1 / 4))], metadata_v = metadata_A\<rparr>]" "[]"]
    example_vectors example_eligible
  by simp

lemma of_char_digit_char: "d < 10 \<Longrightarrow> of_char (digit_char d) = (48 + d :: nat)"
  by (simp add: digit_char_def)

lemma decimal_value_snoc: "decimal_value (s @ [c]) = 10 * decimal_value s + (of_char c - 48)"
  by (simp add: decimal_value_def)

lemma decimal_value_nat_toString: "decimal_value (nat_toString n) = n"
proof (induction n rule: nat_toString.induct)
  case (1 n)
  show ?case
  proof (cases "n < 10")
    case True
    then show ?thesis by (simp add: nat_toString_small decimal_value_def of_char_digit_char)
  next
    case False
    with 1 have "decimal_value (nat_toString (n div 10)) = n div 10" by simp
    with False show ?thesis
      by (simp add: nat_toString_large decimal_value_snoc of_char_digit_char)
  qed
qed

lemma vector_of_fields:
  "vector_of ev p i = Inr v \<Longrightarrow>
     id_v v = nat_toString i
     \<and> md_projectName (metadata_v v) = or_default (projectName p) ''Unnamed Project''
     \<and> md_owner (metadata_v v) = or_default (projectOwner p) ''Unknown Owner''
     \<and> md_languages (metadata_v v) = JSON_stringify (Number_toString ev) (languages p)"
  by (auto simp: vector_of_def split: sum.splits if_splits)

lemma escape_char_plain: "needs_no_escape c \<Longrightarrow> escape_char c = [c]"
  by (simp add: needs_no_escape_def escape_char_def Let_def)

lemma quote_json_plain:
  "list_all needs_no_escape s \<Longrightarrow> quote_json s = [CHR 0x22] @ s @ [CHR 0x22]"
proof -
  assume "list_all needs_no_escape s"
  then have "concat (map escape_char s) = s"
    by (induction s) (simp_all add: escape_char_plain)
  then show ?thesis by (simp add: quote_json_def)
qed

lemma serialize_count: "n < 2 ^ 53 \<Longrightarrow> serialize_number ts (Finite (of_nat n)) = nat_toString n"
  by (simp add: serialize_number_def)

lemma stringify_member:
  "plain_usage u \<Longrightarrow>
     quote_json (fst u) @ CHR '':'' # serialize_number ts (Finite (of_nat (snd u))) = member_text u"
  by (simp add: plain_usage_def member_text_def quote_json_plain serialize_count)

lemma stringify_language_mapping:
  assumes "list_all plain_usage usage"
  shows "JSON_stringify ts (language_mapping usage) = language_mapping_text usage"
proof -
  have "map (\<lambda>(k, v). quote_json k @ '':'' @ JSON_stringify ts v)
          (map (\<lambda>u. (fst u, JNum (Finite (of_nat (snd u))))) usage) = map member_text usage"
    using assms by (induction usage) (simp_all add: stringify_member)
  then show ?thesis
    unfolding language_mapping_def language_mapping_text_def by (simp only: JSON_stringify.simps)
qed

lemma language_mapping_text_example:
  "language_mapping_text [(''js'', 10)] =
     [CHR ''{'', CHR 0x22, CHR ''j'', CHR ''s'', CHR 0x22, CHR '':'', CHR ''1'', CHR ''0'', CHR ''}'']"
  by (simp add: language_mapping_text_def member_text_def nat_toString_large nat_toString_small
      digit_char_simps)

text \<open>
  Claim C6. The vector record at position \<open>i\<close> of the batch has the decimal numeral of
  \<open>i\<close> as id, the project name and the owner of the \<open>i\<close>-th eligible record, replaced
  by \<open>Unnamed Project\<close> and \<open>Unknown Owner\<close> when absent (or empty), and as languages
  the JSON serialization of the record's language mapping: for a mapping of plain usages
  the text \<open>{"language":count,...}\<close>. For the two records of the scenario, whenever the
  description of A embeds to a valid vector, the batch is the one record of A, with id
  \<open>0\<close>, project name \<open>A\<close>, owner \<open>bob\<close> and languages \<open>{"js":10}\<close>.
\<close>

theorem vector_record_fields:
  "(vectors ev allProjects = Inr vs \<and> i < length vs \<longrightarrow>
      id_v (vs ! i) = nat_toString i \<and> decimal_value (id_v (vs ! i)) = i
      \<and> md_projectName (metadata_v (vs ! i)) =
          (case projectName (projectsWithDescription allProjects ! i) of
             None \<Rightarrow> ''Unnamed Project''
           | Some n \<Rightarrow> if n = [] then ''Unnamed Project'' else n)
      \<and> md_owner (metadata_v (vs ! i)) =
          (case projectOwner (projectsWithDescription allProjects ! i) of
             None \<Rightarrow> ''Unknown Owner''
           | Some n \<Rightarrow> if n = [] then ''Unknown Owner'' else n)
      \<and> md_languages (metadata_v (vs ! i)) =
          JSON_stringify (Number_toString ev) (languages (projectsWithDescription allProjects ! i)))
   \<and> (vectors ev allProjects = Inr vs \<and> i < length vs
        \<and> languages (projectsWithDescription allProjects ! i) = language_mapping usage
        \<and> list_all plain_usage usage \<longrightarrow>
      md_languages (metadata_v (vs ! i)) = language_mapping_text usage)
   \<and> language_mapping_text [(''js'', 10)] =
       [CHR ''{'', CHR 0x22, CHR ''j'', CHR ''s'', CHR 0x22, CHR '':'', CHR ''1'', CHR ''0'', CHR ''}'']
   \<and> language_mapping_text [] = ''{}''
   \<and> (getEmbedding ev 0 ''desc'' = Inr embedding \<and> \<not> list_ex isNaN embedding \<longrightarrow>
        vectors ev [project_A, project_B] =
          Inr [\<lparr>id_v = ''0'', values_v = embedding,
                metadata_v = \<lparr>md_projectName = ''A'', md_description = ''desc'',
                               md_languages = [CHR ''{'', CHR 0x22, CHR ''j'', CHR ''s'', CHR 0x22,
                                               CHR '':'', CHR ''1'', CHR ''0'', CHR ''}''],
                               md_owner = ''bob''\<rparr>\<rparr>])"
proof (intro conjI impI)
  assume a: "vectors ev allProjects = Inr vs \<and> i < length vs"
  then have v: "vector_of ev (projectsWithDescription allProjects ! i) i = Inr (vs ! i)"
    using vectors_Inr(2) by blast
  from vector_of_fields[OF v]
  show "id_v (vs ! i) = nat_toString i" "decimal_value (id_v (vs ! i)) = i"
    "md_projectName (metadata_v (vs ! i)) =
          (case projectName (projectsWithDescription allProjects ! i) of
             None \<Rightarrow> ''Unnamed Project''
           | Some n \<Rightarrow> if n = [] then ''Unnamed Project'' else n)"
    "md_owner (metadata_v (vs ! i)) =
          (case projectOwner (projectsWithDescription allProjects ! i) of
             None \<Rightarrow> ''Unknown Owner''
           | Some n \<Rightarrow> if n = [] then ''Unknown Owner'' else n)"
    "md_languages (metadata_v (vs ! i)) =
          JSON_stringify (Number_toString ev) (languages (projectsWithDescription allProjects ! i))"
    by (simp_all add: decimal_value_nat_toString or_default_def)
next
  assume a: "vectors ev allProjects = Inr vs \<and> i < length vs
        \<and> languages (projectsWithDescription allProjects ! i) = language_mapping usage
        \<and> list_all plain_usage usage"
  then have v: "vector_of ev (projectsWithDescription allProjects ! i) i = Inr (vs ! i)"
    using vectors_Inr(2) by blast
  from vector_of_fields[OF v] a
  show "md_languages (metadata_v (vs ! i)) = language_mapping_text usage"
    by (simp add: stringify_language_mapping)
next
  show "language_mapping_text [(''js'', 10)] =
       [CHR ''{'', CHR 0x22, CHR ''j'', CHR ''s'', CHR 0x22, CHR '':'', CHR ''1'', CHR ''0'', CHR ''}'']"
    by (rule language_mapping_text_example)
next
  show "language_mapping_text [] = ''{}''"
    by (simp add: language_mapping_text_def)
next
  assume "getEmbedding ev 0 ''desc'' = Inr embedding \<and> \<not> list_ex isNaN embedding"
  then have "vector_of ev project_A 0 = Inr \<lparr>id_v = ''0'', values_v = embedding, metadata_v = metadata_A\<rparr>"
    by (simp add: vector_of_example)
  then show "vectors ev [project_A, project_B] =
          Inr [\<lparr>id_v = ''0'', values_v = embedding,
                metadata_v = \<lparr>md_projectName = ''A'', md_description = ''desc'',
                               md_languages = [CHR ''{'', CHR 0x22, CHR ''j'', CHR ''s'', CHR 0x22,
                                               CHR '':'', CHR ''1'', CHR ''0'', CHR ''}''],
                               md_owner = ''bob''\<rparr>\<rparr>]"
    by (simp add: vectors_def example_eligible Promise_all_def metadata_A_def)
qed

theorem vector_record_fields_witness:
  "getEmbedding example_env 0 ''desc'' = Inr [Num (Finite (1 / 2)), Num (Finite (- 1 / 4))]
   \<and> \<not> list_ex isNaN [Num (Finite (1 / 2)), Num (Finite (- 1 / 4))]
   \<and> vectors example_env [project_A, project_B] =
          Inr [\<lparr>id_v = ''0'', values_v = [Num (Finite (1 / 2)), Num (Finite (- 1 / 4))],
                metadata_v = \<lparr>md_projectName = ''A'', md_description = ''desc'',
                               md_languages = [CHR ''{'', CHR 0x22, CHR ''j'', CHR ''s'', CHR 0x22,
                                               CHR '':'', CHR ''1'', CHR ''0'', CHR ''}''],
                               md_owner = ''bob''\<rparr>\<rparr>]
   \<and> languages project_A = language_mapping [(''js'', 10)]
   \<and> list_all plain_usage [(''js'', 10)]
   \<and> md_languages (metadata_v
        (\<lparr>id_v = ''0'', values_v = [Num (Finite (1 / 2)), Num (Finite (- 1 / 4))],
          metadata_v = metadata_A\<rparr>)) = language_mapping_text [(''js'', 10)]"
proof -
  let ?v = "\<lparr>id_v = ''0'', values_v = [Num (Finite (1 / 2)), Num (Finite (- 1 / 4))],
             metadata_v = metadata_A\<rparr>"
  have emb: "getEmbedding example_env 0 ''desc'' = Inr [Num (Finite (1 / 2)), Num (Finite (- 1 / 4))]"
    by (simp add: getEmbedding_def example_env_def)
  have ok: "\<not> list_ex isNaN [Num (Finite (1 / 2)), Num (Finite (- 1 / 4))]" by simp
  have l: "languages project_A = language_mapping [(''js'', 10)]"
    by (simp add: project_A_def language_mapping_def)
  have pl: "list_all plain_usage [(''js'', 10)]"
    by (simp add: plain_usage_def needs_no_escape_def)
  have scenario: "vectors example_env [project_A, project_B] =
          Inr [\<lparr>id_v = ''0'', values_v = [Num (Finite (1 / 2)), Num (Finite (- 1 / 4))],
                metadata_v = \<lparr>md_projectName = ''A'', md_description = ''desc'',
                               md_languages = [CHR ''{'', CHR 0x22, CHR ''j'', CHR ''s'', CHR 0x22,
                                               CHR '':'', CHR ''1'', CHR ''0'', CHR ''}''],
                               md_owner = ''bob''\<rparr>\<rparr>]"
    using vector_record_fields[of example_env "[]" "[]" 0 "[]"
        "[Num (Finite (1 / 2)), Num (Finite (- 1 / 4))]"] emb ok
    by blast
  have h1: "vectors example_env [project_A, project_B] = Inr [?v]"
    by (rule example_vectors)
  have h2: "0 < length [?v]" by simp
  have h3: "languages (projectsWithDescription [project_A, project_B] ! 0) =
            language_mapping [(''js'', 10)]"
    by (simp add: example_eligible l)
  have "md_languages (metadata_v ([?v] ! 0)) = language_mapping_text [(''js'', 10)]"
    using vector_record_fields[of example_env "[project_A, project_B]" "[?v]" 0 "[(''js'', 10)]"
        "[Num (Finite (1 / 2)), Num (Finite (- 1 / 4))]"] h1 h2 h3 pl
    by blast
  then have r: "md_languages (metadata_v ?v) = language_mapping_text [(''js'', 10)]"
    by simp
  from emb ok scenario l pl r show ?thesis by blast
qed

subsection \<open>The embedder, the request check, the query and the system prompt\<close>

lemma first_isArray_Num: "\<not> first_isArray (map Num xs)"
  by (cases xs) auto

lemma flat_rows: "flat (map (\<lambda>r. Arr (map Num r)) rows) = map Num (concat rows)"
  by (induction rows) auto

lemma first_isArray_rows: "rows \<noteq> [] \<Longrightarrow> first_isArray (map (\<lambda>r. Arr (map Num r)) rows)"
  by (cases rows) auto

text \<open>
  Claim C2, amended. \<open>getEmbedding\<close> checks no dimension. It fails when the model call
  fails or when the response is not an array. It returns a response that is a sequence of
  numbers unchanged, with as many components as the model returned. It returns a nested
  response flattened: the rows one after the other, not averaged, with as many components
  as the rows have together.
\<close>

theorem getEmbedding_returns_model_output:
  "(hf_featureExtraction ev k text = Inl e \<longrightarrow> getEmbedding ev k text = Inl e)
   \<and> (hf_featureExtraction ev k text = Inr (Num x) \<longrightarrow>
        getEmbedding ev k text = Inl (JsError ''Invalid embedding response format''))
   \<and> (hf_featureExtraction ev k text = Inr (Arr (map Num xs)) \<longrightarrow>
        getEmbedding ev k text = Inr (map Num xs) \<and> length (map Num xs) = length xs)
   \<and> (rows \<noteq> [] \<and> hf_featureExtraction ev k text = Inr (Arr (map (\<lambda>r. Arr (map Num r)) rows)) \<longrightarrow>
        getEmbedding ev k text = Inr (map Num (concat rows))
        \<and> length (map Num (concat rows)) = sum_list (map length rows))"
  by (simp add: getEmbedding_def first_isArray_Num flat_rows first_isArray_rows length_concat)

theorem getEmbedding_returns_model_output_witness:
  "hf_featureExtraction example_env 0 ''desc'' = Inr (Arr (map Num [Finite (1 / 2), Finite (- 1 / 4)]))
   \<and> getEmbedding example_env 0 ''desc'' = Inr (map Num [Finite (1 / 2), Finite (- 1 / 4)])
   \<and> length (map Num [Finite (1 / 2), Finite (- 1 / 4)]) = 2
   \<and> getEmbedding failing_model_env 0 ''desc'' = Inl (JsError ''model unavailable'')"
  using getEmbedding_returns_model_output[of example_env 0 "''desc''" "JsError ''model unavailable''"
      NaN "[Finite (1 / 2), Finite (- 1 / 4)]" "[]"]
    getEmbedding_returns_model_output[of failing_model_env 0 "''desc''" "JsError ''model unavailable''"
      NaN "[]" "[]"]
  by (simp add: example_env_def failing_model_env_def)

text \<open>
  As stated, claim C2 fails: when the model returns three components, \<open>getEmbedding\<close>
  returns a vector of dimension 3; when it returns two rows of dimension 384, the
  flattened vector has dimension 768. Neither call fails.
\<close>

theorem dimension_counterexample:
  "getEmbedding three_model_env 0 ''desc'' = Inr [Num (Finite 1), Num (Finite 2), Num (Finite 3)]
   \<and> length [Num (Finite 1), Num (Finite 2), Num (Finite 3)] = 3
   \<and> getEmbedding token_level_env 0 ''desc'' =
       Inr (replicate 384 (Num (Finite 0)) @ replicate 384 (Num (Finite 0)))
   \<and> length (replicate 384 (Num (Finite 0)) @ replicate 384 (Num (Finite 0))) = 768"
  by (simp add: getEmbedding_def three_model_env_def token_level_env_def example_env_def)

lemma latestUserMessage_None: "\<forall>m\<in>set messages. role m \<noteq> User \<Longrightarrow> latestUserMessage messages = None"
proof -
  assume "\<forall>m\<in>set messages. role m \<noteq> User"
  then have "filter (\<lambda>msg. role msg = User) messages = []" by (simp add: filter_empty_conv)
  then show ?thesis by (simp add: latestUserMessage_def)
qed

lemma latestUserMessage_last:
  assumes "messages = before @ m # after" and "role m = User" and "\<forall>x\<in>set after. role x \<noteq> User"
  shows "latestUserMessage messages = Some m"
proof -
  from assms(3) have "filter (\<lambda>msg. role msg = User) after = []" by (simp add: filter_empty_conv)
  with assms(1,2) show ?thesis by (simp add: latestUserMessage_def)
qed

text \<open>
  Claim C4. When the message list has no message of role \<open>user\<close>, or the content of its
  last message of role \<open>user\<close> is not a plain string, the handler answers with the JSON
  error of status 400 and makes no external call: neither the embedding model nor the
  vector index is called.
\<close>

theorem invalid_request_is_400:
  assumes "(\<forall>m\<in>set messages. role m \<noteq> User) \<or>
           (\<exists>before m after ps. messages = before @ m # after \<and> role m = User
              \<and> (\<forall>x\<in>set after. role x \<noteq> User) \<and> content m = Parts ps)"
  shows "POST ev (Inr messages) =
           (NextResponse_json (Error_body ''Invalid user message in request.'') 400, [])"
  using assms
proof
  assume "\<forall>m\<in>set messages. role m \<noteq> User"
  then show ?thesis by (simp add: POST_def POST_try_def latestUserMessage_None)
next
  assume "\<exists>before m after ps. messages = before @ m # after \<and> role m = User
              \<and> (\<forall>x\<in>set after. role x \<noteq> User) \<and> content m = Parts ps"
  then obtain before m after ps where m: "messages = before @ m # after" "role m = User"
    "\<forall>x\<in>set after. role x \<noteq> User" and c: "content m = Parts ps" by blast
  from m have "latestUserMessage messages = Some m" by (rule latestUserMessage_last)
  with c show ?thesis by (simp add: POST_def POST_try_def)
qed

theorem invalid_request_is_400_witness:
  "role \<lparr>role = System, content = Text ''be brief''\<rparr> \<noteq> User
   \<and> POST example_env (Inr [\<lparr>role = System, content = Text ''be brief''\<rparr>]) =
       (NextResponse_json (Error_body ''Invalid user message in request.'') 400, [])
   \<and> POST example_env (Inr [\<lparr>role = User, content = Text ''What does project A do?''\<rparr>,
                            \<lparr>role = User, content = Parts [''an image'']\<rparr>,
                            \<lparr>role = Assistant, content = Text ''It is a project.''\<rparr>]) =
       (NextResponse_json (Error_body ''Invalid user message in request.'') 400, [])"
proof -
  have 1: "(\<forall>m\<in>set [\<lparr>role = System, content = Text ''be brief''\<rparr>]. role m \<noteq> User) \<or>
           (\<exists>before m after ps. [\<lparr>role = System, content = Text ''be brief''\<rparr>] = before @ m # after
              \<and> role m = User \<and> (\<forall>x\<in>set after. role x \<noteq> User) \<and> content m = Parts ps)"
    by simp
  let ?ms = "[\<lparr>role = User, content = Text ''What does project A do?''\<rparr>,
              \<lparr>role = User, content = Parts [''an image'']\<rparr>,
              \<lparr>role = Assistant, content = Text ''It is a project.''\<rparr>]"
  have "?ms = [\<lparr>role = User, content = Text ''What does project A do?''\<rparr>] @
              \<lparr>role = User, content = Parts [''an image'']\<rparr> #
              [\<lparr>role = Assistant, content = Text ''It is a project.''\<rparr>]
        \<and> role \<lparr>role = User, content = Parts [''an image'']\<rparr> = User
        \<and> (\<forall>x\<in>set [\<lparr>role = Assistant, content = Text ''It is a project.''\<rparr>]. role x \<noteq> User)
        \<and> content \<lparr>role = User, content = Parts [''an image'']\<rparr> = Parts [''an image'']"
    by simp
  then have 2: "(\<forall>m\<in>set ?ms. role m \<noteq> User) \<or>
           (\<exists>before m after ps. ?ms = before @ m # after
              \<and> role m = User \<and> (\<forall>x\<in>set after. role x \<noteq> User) \<and> content m = Parts ps)"
    by blast
  from invalid_request_is_400[OF 1, of example_env] invalid_request_is_400[OF 2, of example_env]
  show ?thesis by simp
qed

lemma POST_calls:
  "snd (POST ev req) = snd (POST_try ev req)"
  by (cases "POST_try ev req") (auto simp: POST_def split: sum.splits)

lemma POST_query_call:
  assumes "Query options \<in> set (snd (POST ev (Inr messages)))"
  shows "\<exists>m query. latestUserMessage messages = Some m \<and> content m = Text query
            \<and> getEmbedding ev 0 query = Inr (vector options) \<and> topK options = 3 \<and> includeMetadata options"
  using assms unfolding POST_calls
  by (auto simp: POST_try_def Let_def split: option.splits content.splits sum.splits)

lemma POST_queries:
  assumes "latestUserMessage messages = Some m" "content m = Text query"
    "getEmbedding ev 0 query = Inr queryEmbedding" "getPineconeIndex ev = Inr ()"
  shows "Query \<lparr>vector = queryEmbedding, topK = 3, includeMetadata = True\<rparr> \<in> set (snd (POST ev (Inr messages)))"
  using assms unfolding POST_calls
  by (auto simp: POST_try_def Let_def split: option.splits content.splits sum.splits)

text \<open>
  Claim C9. Every query the handler sends to the vector index asks for the top 3 matches
  with metadata, for the embedding of the latest user message; the handler sends it
  whenever that message is a plain string, its embedding succeeds and the API key is set;
  and when the index honours the request, the matches are at most 3 and each carries
  metadata.
\<close>

theorem retrieval_queries_top_3_with_metadata:
  "(Query options \<in> set (snd (POST ev (Inr messages))) \<longrightarrow>
      topK options = 3 \<and> includeMetadata options
      \<and> (\<exists>m query. latestUserMessage messages = Some m \<and> content m = Text query
            \<and> getEmbedding ev 0 query = Inr (vector options)))
   \<and> (latestUserMessage messages = Some m \<and> content m = Text query
        \<and> getEmbedding ev 0 query = Inr queryEmbedding \<and> getPineconeIndex ev = Inr () \<longrightarrow>
      Query \<lparr>vector = queryEmbedding, topK = 3, includeMetadata = True\<rparr>
        \<in> set (snd (POST ev (Inr messages))))
   \<and> (Query options \<in> set (snd (POST ev (Inr messages)))
        \<and> index_query ev options = Inr queryResponse \<and> honours_query options queryResponse
        \<and> matches queryResponse = Some ms \<longrightarrow>
      length ms \<le> 3 \<and> list_all (\<lambda>match. metadata_m match \<noteq> None) ms)"
proof (intro conjI impI)
  assume q: "Query options \<in> set (snd (POST ev (Inr messages)))"
  from POST_query_call[OF q]
  show "topK options = 3" "includeMetadata options"
    "\<exists>m query. latestUserMessage messages = Some m \<and> content m = Text query
            \<and> getEmbedding ev 0 query = Inr (vector options)"
    by blast+
next
  assume "latestUserMessage messages = Some m \<and> content m = Text query
        \<and> getEmbedding ev 0 query = Inr queryEmbedding \<and> getPineconeIndex ev = Inr ()"
  then show "Query \<lparr>vector = queryEmbedding, topK = 3, includeMetadata = True\<rparr>
        \<in> set (snd (POST ev (Inr messages)))"
    using POST_queries by blast
next
  assume a: "Query options \<in> set (snd (POST ev (Inr messages)))
        \<and> index_query ev options = Inr queryResponse \<and> honours_query options queryResponse
        \<and> matches queryResponse = Some ms"
  then have "topK options = 3" "includeMetadata options" using POST_query_call by blast+
  with a show "length ms \<le> 3" "list_all (\<lambda>match. metadata_m match \<noteq> None) ms"
    by (auto simp: honours_query_def)
qed

theorem retrieval_queries_top_3_with_metadata_witness:
  "Query \<lparr>vector = [Num (Finite (1 / 2)), Num (Finite (- 1 / 4))], topK = 3, includeMetadata = True\<rparr>
     \<in> set (snd (POST example_env (Inr example_messages)))
   \<and> honours_query \<lparr>vector = [Num (Finite (1 / 2)), Num (Finite (- 1 / 4))], topK = 3, includeMetadata = True\<rparr>
        \<lparr>matches = Some [\<lparr>id_m = ''0'', score_m = Some (Finite (2 / 3)), metadata_m = Some metadata_A\<rparr>]\<rparr>
   \<and> length [\<lparr>id_m = ''0'', score_m = Some (Finite (2 / 3)), metadata_m = Some metadata_A\<rparr>] \<le> 3"
proof -
  let ?opts = "\<lparr>vector = [Num (Finite (1 / 2)), Num (Finite (- 1 / 4))], topK = 3, includeMetadata = True\<rparr>"
  let ?m = "\<lparr>id_m = ''0'', score_m = Some (Finite (2 / 3)), metadata_m = Some metadata_A\<rparr>"
  have l: "latestUserMessage example_messages = Some \<lparr>role = User, content = Text ''What does project A do?''\<rparr>"
    by (simp add: latestUserMessage_def example_messages_def)
  have e: "getEmbedding example_env 0 ''What does project A do?'' = Inr [Num (Finite (1 / 2)), Num (Finite (- 1 / 4))]"
    by (simp add: getEmbedding_def example_env_def)
  have k: "getPineconeIndex example_env = Inr ()"
    by (simp add: getPineconeIndex_def example_env_def)
  have q: "Query ?opts \<in> set (snd (POST example_env (Inr example_messages)))"
    using retrieval_queries_top_3_with_metadata[of ?opts example_env example_messages
        "\<lparr>role = User, content = Text ''What does project A do?''\<rparr>" "''What does project A do?''"
        "[Num (Finite (1 / 2)), Num (Finite (- 1 / 4))]" "\<lparr>matches = Some [?m]\<rparr>" "[?m]"] l e k
    by simp
  have h: "honours_query ?opts \<lparr>matches = Some [?m]\<rparr>"
    by (simp add: honours_query_def)
  from q h show ?thesis by simp
qed

lemma sublist_here: "sublist xs (xs @ ss)"
  by (simp add: prefix_imp_sublist)

lemma sublist_later: "sublist xs ys \<Longrightarrow> sublist xs (ps @ ys)"
  unfolding sublist_def by (metis append.assoc)

lemma sublist_here8:
  "sublist (a @ b @ c @ d @ e @ f @ g @ h) (a @ b @ c @ d @ e @ f @ g @ h @ ss)"
  using sublist_here[of "a @ b @ c @ d @ e @ f @ g @ h" ss] by simp

text \<open>
  Claim C8. For every context block, the empty one included, the system prompt contains
  the block verbatim, framed by the \<open>CONTEXT:\<close> header and the separator lines, the
  refusal sentence verbatim, and the instructions to use only the context, to use no
  prior or outside knowledge, and not to make up details.
\<close>

theorem system_prompt_grounding:
  "sublist context (systemPrompt context)
   \<and> sublist ''I don't have enough information to answer that.'' (systemPrompt context)
   \<and> sublist ''1.  ONLY use the information from the CONTEXT section to answer the query.''
        (systemPrompt context)
   \<and> sublist ''3.  Do NOT use any prior knowledge or information outside of the provided context.''
        (systemPrompt context)
   \<and> sublist ''4.  Do NOT make up or infer details not explicitly stated.'' (systemPrompt context)
   \<and> sublist (''CONTEXT:'' @ nl @ ''---'' @ nl @ context @ nl @ ''---'' @ nl) (systemPrompt context)"
proof (intro conjI)
  show "sublist context (systemPrompt context)"
    unfolding systemPrompt_def by (intro sublist_here sublist_later)
  show "sublist ''I don't have enough information to answer that.'' (systemPrompt context)"
    unfolding systemPrompt_def by (intro sublist_here sublist_later)
  show "sublist ''1.  ONLY use the information from the CONTEXT section to answer the query.''
        (systemPrompt context)"
    unfolding systemPrompt_def by (intro sublist_here sublist_later)
  show "sublist ''3.  Do NOT use any prior knowledge or information outside of the provided context.''
        (systemPrompt context)"
    unfolding systemPrompt_def by (intro sublist_here sublist_later)
  show "sublist ''4.  Do NOT make up or infer details not explicitly stated.'' (systemPrompt context)"
    unfolding systemPrompt_def by (intro sublist_here sublist_later)
  show "sublist (''CONTEXT:'' @ nl @ ''---'' @ nl @ context @ nl @ ''---'' @ nl) (systemPrompt context)"
    unfolding systemPrompt_def by (intro sublist_here8 sublist_later)
qed

subsection \<open>Decimal digits and \<open>toFixed\<close>\<close>

lemma nat_toString_0: "nat_toString 0 = ''0''"
  by (simp add: nat_toString_small digit_char_simps)

lemma digit_char_0: "digit_char 0 = CHR ''0''"
  by (rule digit_char_simps)

lemma nat_toString_length4:
  assumes "10000 \<le> n"
  shows "nat_toString n = nat_toString (n div 10000) @
           [digit_char (n div 1000 mod 10), digit_char (n div 100 mod 10),
            digit_char (n div 10 mod 10), digit_char (n mod 10)]"
proof -
  have 1: "nat_toString n = nat_toString (n div 10) @ [digit_char (n mod 10)]"
    using assms by (simp add: nat_toString_large)
  have 2: "nat_toString (n div 10) = nat_toString (n div 100) @ [digit_char (n div 10 mod 10)]"
    using assms nat_toString_large[of "n div 10"] by (simp add: div_mult2_eq[symmetric])
  have 3: "nat_toString (n div 100) = nat_toString (n div 1000) @ [digit_char (n div 100 mod 10)]"
    using assms nat_toString_large[of "n div 100"] by (simp add: div_mult2_eq[symmetric])
  have 4: "nat_toString (n div 1000) = nat_toString (n div 10000) @ [digit_char (n div 1000 mod 10)]"
    using assms nat_toString_large[of "n div 1000"] by (simp add: div_mult2_eq[symmetric])
  show ?thesis by (simp add: 1 2 3 4)
qed

lemma length_nat_toString_pos: "0 < length (nat_toString n)"
  by (cases "n < 10") (simp_all add: nat_toString_small nat_toString_large)

lemma replicate_zeros:
  "replicate 4 x = [x, x, x, x]" "replicate 3 x = [x, x, x]" "replicate 2 x = [x, x]"
  by (simp_all add: numeral_eq_Suc)

lemma nat_toString_below_10000:
  assumes "n < 10000"
  shows "length (nat_toString n) \<le> 4 \<and>
         replicate (5 - length (nat_toString n)) (CHR ''0'') @ nat_toString n =
           [CHR ''0'', digit_char (n div 1000 mod 10), digit_char (n div 100 mod 10),
            digit_char (n div 10 mod 10), digit_char (n mod 10)]"
proof -
  consider "n < 10" | "10 \<le> n" "n < 100" | "100 \<le> n" "n < 1000" | "1000 \<le> n" "n < 10000"
    using assms by linarith
  then show ?thesis
  proof cases
    case 1
    then show ?thesis
      by (simp add: nat_toString_small digit_char_0 replicate_zeros)
  next
    case 2
    then have "nat_toString n = [digit_char (n div 10), digit_char (n mod 10)]"
      by (simp add: nat_toString_large nat_toString_small)
    with 2 show ?thesis by (simp add: digit_char_0 replicate_zeros)
  next
    case 3
    then have "nat_toString (n div 10) = [digit_char (n div 100), digit_char (n div 10 mod 10)]"
      using nat_toString_large[of "n div 10"] nat_toString_small[of "n div 100"]
      by (simp add: div_mult2_eq[symmetric])
    with 3 have "nat_toString n = [digit_char (n div 100), digit_char (n div 10 mod 10), digit_char (n mod 10)]"
      by (simp add: nat_toString_large)
    with 3 show ?thesis by (simp add: digit_char_0 replicate_zeros)
  next
    case 4
    then have "nat_toString (n div 100) = [digit_char (n div 1000), digit_char (n div 100 mod 10)]"
      using nat_toString_large[of "n div 100"] nat_toString_small[of "n div 1000"]
      by (simp add: div_mult2_eq[symmetric])
    with 4 have "nat_toString (n div 10) = [digit_char (n div 1000), digit_char (n div 100 mod 10), digit_char (n div 10 mod 10)]"
      using nat_toString_large[of "n div 10"] by (simp add: div_mult2_eq[symmetric])
    with 4 have "nat_toString n = [digit_char (n div 1000), digit_char (n div 100 mod 10),
        digit_char (n div 10 mod 10), digit_char (n mod 10)]"
      by (simp add: nat_toString_large)
    with 4 show ?thesis by simp
  qed
qed

lemma rounded4_nearest:
  "\<bar>of_nat (nat \<lfloor>\<bar>q\<bar> * 10000 + 1 / 2\<rfloor>) / 10000 - \<bar>q\<bar>\<bar> \<le> (1 / 20000 :: rat)"
proof -
  define b where "b = \<bar>q\<bar>"
  define z :: rat where "z = of_int \<lfloor>b * 10000 + 1 / 2\<rfloor>"
  have "0 \<le> b" by (simp add: b_def)
  then have "0 \<le> \<lfloor>b * 10000 + 1 / 2\<rfloor>" by simp
  then have n: "(of_nat (nat \<lfloor>b * 10000 + 1 / 2\<rfloor>) :: rat) = z" by (simp add: z_def)
  have "z \<le> b * 10000 + 1 / 2" "b * 10000 + 1 / 2 < z + 1" unfolding z_def by linarith+
  then have "\<bar>z / 10000 - b\<bar> \<le> 1 / 20000" by linarith
  then show ?thesis unfolding n[symmetric] b_def .
qed

subsection \<open>The context block\<close>

lemma insert_point4_nat_toString:
  "insert_point4 (nat_toString n) =
     nat_toString (n div 10000) @ ''.'' @
       [digit_char (n div 1000 mod 10), digit_char (n div 100 mod 10),
        digit_char (n div 10 mod 10), digit_char (n mod 10)]"
proof (cases "n < 10000")
  case True
  from nat_toString_below_10000[OF True] True show ?thesis
    by (simp add: insert_point4_def Let_def nat_toString_0)
next
  case False
  then have "10000 \<le> n" by simp
  from nat_toString_length4[OF this] length_nat_toString_pos[of "n div 10000"] show ?thesis
    by (simp add: insert_point4_def Let_def)
qed

lemma toFixed4_rounded4:
  assumes "\<bar>q\<bar> < 10 ^ 21"
  shows "toFixed4 ts (Finite q) = rounded4 q"
proof -
  define n where "n = nat \<lfloor>\<bar>q\<bar> * 10000 + 1 / 2\<rfloor>"
  have m0: "(if n = 0 then ''0'' else nat_toString n) = nat_toString n"
    by (simp add: nat_toString_0)
  have "toFixed4 ts (Finite q) = (if q < 0 then ''-'' else []) @ insert_point4 (nat_toString n)"
    using assms m0 by (simp add: toFixed4_def Let_def n_def[symmetric])
  also have "\<dots> = rounded4 q"
    by (simp add: insert_point4_nat_toString rounded4_def Let_def n_def[symmetric])
  finally show ?thesis .
qed

lemma map_throwing_Inr:
  "(\<And>x. x \<in> set xs \<Longrightarrow> f x = Inr (g x)) \<Longrightarrow> map_throwing f xs = Inr (map g xs)"
  by (induction xs) auto

lemma render_match_well_scored:
  "well_scored m \<Longrightarrow> render_match ev m = Inr (expected_paragraph m)"
  by (auto simp: well_scored_def render_match_def expected_paragraph_def paragraph_with_def
      score_text_def toFixed4_rounded4 split: option.splits jsnum.splits)

lemma render_match_unscored:
  "metadata_m m = Some md \<Longrightarrow> score_m m = None \<Longrightarrow>
     render_match ev m = Inr (paragraph_with md ''undefined'')"
  by (simp add: render_match_def paragraph_with_def score_text_def)

text \<open>
  Claim C7, amended. When every match carries metadata and a finite score of magnitude
  below \<open>10^21\<close>, the context block is the fixed-format paragraphs of the matches, each
  with its score rounded to exactly four decimal places, joined by the separator line. No
  match, or no match list, gives the empty block and no error.
\<close>

theorem context_block_rendering:
  "(list_all well_scored ms \<longrightarrow>
      context_of ev \<lparr>matches = Some ms\<rparr> = Inr (join (nl @ ''---'' @ nl) (map expected_paragraph ms)))
   \<and> context_of ev \<lparr>matches = Some []\<rparr> = Inr []
   \<and> context_of ev \<lparr>matches = None\<rparr> = Inr []"
proof (intro conjI impI)
  assume "list_all well_scored ms"
  then have "map_throwing (render_match ev) ms = Inr (map expected_paragraph ms)"
    by (intro map_throwing_Inr render_match_well_scored) (simp add: list_all_iff)
  then show "context_of ev \<lparr>matches = Some ms\<rparr> = Inr (join (nl @ ''---'' @ nl) (map expected_paragraph ms))"
    by (simp add: context_of_def)
qed (simp_all add: context_of_def)

lemma rounded4_example: "rounded4 (2 / 3) = ''0.6667''"
proof -
  have "\<lfloor>(40003::rat) / 6\<rfloor> = 6667" by (rule floor_unique) simp_all
  then show ?thesis by (simp add: rounded4_def Let_def nat_toString_0 digit_char_simps)
qed

theorem context_block_rendering_witness:
  "list_all well_scored [\<lparr>id_m = ''0'', score_m = Some (Finite (2 / 3)), metadata_m = Some metadata_A\<rparr>]
   \<and> context_of example_env
        \<lparr>matches = Some [\<lparr>id_m = ''0'', score_m = Some (Finite (2 / 3)), metadata_m = Some metadata_A\<rparr>]\<rparr> =
      Inr (''Project: A'' @ nl @ ''Owner: bob'' @ nl @ ''Description: desc'' @ nl @
           ''Relevance Score: 0.6667'' @ nl)"
proof -
  have w: "list_all well_scored [\<lparr>id_m = ''0'', score_m = Some (Finite (2 / 3)), metadata_m = Some metadata_A\<rparr>]"
    by (simp add: well_scored_def)
  have p: "expected_paragraph \<lparr>id_m = ''0'', score_m = Some (Finite (2 / 3)), metadata_m = Some metadata_A\<rparr> =
      ''Project: A'' @ nl @ ''Owner: bob'' @ nl @ ''Description: desc'' @ nl @ ''Relevance Score: 0.6667'' @ nl"
    by (simp add: expected_paragraph_def paragraph_with_def rounded4_example metadata_A_def)
  from context_block_rendering[of "[\<lparr>id_m = ''0'', score_m = Some (Finite (2 / 3)), metadata_m = Some metadata_A\<rparr>]" example_env]
    w p show ?thesis by simp
qed

lemma dot_in_rounded4: "CHR ''.'' \<in> set (rounded4 q)"
  by (simp add: rounded4_def Let_def)

text \<open>
  As stated, claim C7 fails: for a match without score the paragraph shows the text
  \<open>undefined\<close>, which is no number with four decimal places.
\<close>

theorem unscored_match_counterexample:
  "context_of example_env \<lparr>matches = Some [unscored_match]\<rparr> =
     Inr (''Project: A'' @ nl @ ''Owner: bob'' @ nl @ ''Description: desc'' @ nl @
          ''Relevance Score: undefined'' @ nl)
   \<and> score_text example_env unscored_match = ''undefined''
   \<and> CHR ''.'' \<notin> set (score_text example_env unscored_match)"
  by (simp add: context_of_def render_match_def score_text_def unscored_match_def metadata_A_def)

lemma POST_streams_systemPrompt:
  assumes "StreamText system msgs \<in> set (snd (POST ev (Inr messages)))"
  shows "msgs = messages \<and>
         (\<exists>options queryResponse context.
            index_query ev options = Inr queryResponse
            \<and> context_of ev queryResponse = Inr context \<and> system = systemPrompt context)"
  using assms unfolding POST_calls
  by (auto simp: POST_try_def Let_def split: option.splits content.splits sum.splits)

end
